theory Spec2Isabelle
  imports Complex_Main "HOL-Library.Char_ord" "HOL-Library.List_Lexorder"
    "HOL-Library.Log_Nat"
begin

section \<open>Load market analysis: the risk and quality scoring pipeline of handler.py\<close>

text \<open>
  The functions of \<^verbatim>\<open>src/handler.py\<close> that decide the score of a load are
  embedded here: \<^verbatim>\<open>check_for_hazards\<close>, \<^verbatim>\<open>estimate_weather_delay\<close>,
  \<^verbatim>\<open>get_simple_weather_analysis\<close>, \<^verbatim>\<open>calculate_deadhead_analysis\<close>,
  \<^verbatim>\<open>calculate_load_score\<close> and \<^verbatim>\<open>get_rate_comparison\<close>.

  Conventions of the embedding.
  \<^item> Python numbers (\<^verbatim>\<open>int\<close> and \<^verbatim>\<open>float\<close>) are the reals of HOL. In
    \<^verbatim>\<open>calculate_deadhead_analysis\<close>, whose percentages are compared to the last digit,
    every operation is rounded to binary64 as the code does; elsewhere the arithmetic is
    exact. Infinities, NaN, overflow and underflow are not part of the model.
  \<^item> A dictionary built by the code with a fixed set of keys is a record; a key the
    code tests for presence (\<^verbatim>\<open>in\<close>, \<^verbatim>\<open>.get\<close>) is an optional field.
  \<^item> An exception is a value: functions that can raise return \<open>py_error + 'a\<close>.
  \<^item> An f-string is the list of its parts, literal text and interpolated numbers, since
    the decimal rendering of a float is not modelled.
\<close>

subsection \<open>Python values, errors and rounding\<close>

datatype py_error = KeyError string | ZeroDivisionError

text \<open>A value that the code inspects with \<^verbatim>\<open>isinstance(v, (int, float))\<close> or compares with None.\<close>

datatype pyval = PyNum real | PyStr string

text \<open>The parts of a formatted string.\<close>

datatype fpart = Txt string | Num real

type_synonym fstring = "fpart list"

text \<open>Sequencing of computations that may raise.\<close>

definition bind_err :: "py_error + 'a \<Rightarrow> ('a \<Rightarrow> py_error + 'b) \<Rightarrow> py_error + 'b" where
  "bind_err m f = (case m of Inl e \<Rightarrow> Inl e | Inr v \<Rightarrow> f v)"

text \<open>True division \<^verbatim>\<open>a / b\<close>: raises ZeroDivisionError on a zero divisor.\<close>

definition py_div :: "real \<Rightarrow> real \<Rightarrow> py_error + real" where
  "py_div a b = (if b = 0 then Inl ZeroDivisionError else Inr (a / b))"

text \<open>
  The builtin \<^verbatim>\<open>round(x)\<close>: the nearest integer, a tie going to the even neighbour.
\<close>

definition py_round :: "real \<Rightarrow> int" where
  "py_round x =
     (let f = \<lfloor>x\<rfloor>; d = x - of_int f
      in if d < 1 / 2 then f
         else if 1 / 2 < d then f + 1
         else if even f then f else f + 1)"

text \<open>The builtin \<^verbatim>\<open>round(x, n)\<close> for a non-negative number of digits \<open>n\<close>.\<close>

definition py_round_nd :: "real \<Rightarrow> nat \<Rightarrow> real" where
  "py_round_nd x n = of_int (py_round (x * 10 ^ n)) / 10 ^ n"

text \<open>\<^verbatim>\<open>str.lower()\<close> on the ASCII letters.\<close>

definition lower_char :: "char \<Rightarrow> char" where
  "lower_char c =
     (case map_of (zip ''ABCDEFGHIJKLMNOPQRSTUVWXYZ'' ''abcdefghijklmnopqrstuvwxyz'') c of
        None \<Rightarrow> c | Some l \<Rightarrow> l)"

definition py_lower :: "string \<Rightarrow> string" where
  "py_lower s = map lower_char s"

subsection \<open>Binary floating point\<close>

text \<open>
  Where a claim depends on the last digits of a float, the arithmetic of the code is
  modelled as it is: a Python float is an IEEE 754 binary64 number, and every operation
  returns the exact result rounded to the nearest number with a significand of 53 bits, a
  tie going to the even significand. The range of the exponent is not bounded here:
  overflow and underflow are outside the model. A value that is already a binary64 number,
  and an integer below \<open>2 ^ 53\<close>, are left unchanged by the rounding.
\<close>

text \<open>The exponent \<open>e\<close> of a positive number: \<open>2 ^ e \<le> x < 2 ^ (e + 1)\<close>.\<close>

definition expo :: "real \<Rightarrow> int" where
  "expo x = (if 1 \<le> x then bitlen \<lfloor>x\<rfloor> - 1 else - bitlen (\<lceil>1 / x\<rceil> - 1))"

text \<open>Rounding to binary64.\<close>

definition fl64 :: "real \<Rightarrow> real" where
  "fl64 x =
     (if x = 0 then 0
      else (let ulp = 2 powi (expo \<bar>x\<bar> - 52) in of_int (py_round (x / ulp)) * ulp))"

text \<open>
  \<^verbatim>\<open>a / b\<close> on floats: the rounded quotient, or ZeroDivisionError.
\<close>

definition float_div :: "real \<Rightarrow> real \<Rightarrow> py_error + real" where
  "float_div a b = (if b = 0 then Inl ZeroDivisionError else Inr (fl64 (a / b)))"

text \<open>
  \<^verbatim>\<open>round(x, n)\<close> on a float \<open>x\<close>: the exact value of \<open>x\<close> is rounded to \<open>n\<close> decimals,
  a tie going to the even digit, and the decimal result is converted to the nearest float.
\<close>

definition float_round :: "real \<Rightarrow> nat \<Rightarrow> real" where
  "float_round x n = fl64 (of_int (py_round (x * 10 ^ n)) / 10 ^ n)"

subsection \<open>calculate_load_score\<close>

record load_score =
  score :: int
  category :: string
  key_factors :: "fstring list"

text \<open>
  The scorer threads two locals through five blocks: \<^verbatim>\<open>quality_score\<close> and the list
  \<^verbatim>\<open>factors\<close>. Each block is a function on that pair.
\<close>

type_synonym score_state = "real \<times> fstring list"

text \<open>Factor 1: rate comparison, skipped unless the argument is a number.\<close>

definition factor_rate :: "pyval \<Rightarrow> score_state \<Rightarrow> score_state" where
  "factor_rate rate_comparison st =
     (case rate_comparison of
        PyStr _ \<Rightarrow> st
      | PyNum rc \<Rightarrow>
          (let capped_difference = max (min rc 30) (- 30);
               rate_score = capped_difference * (25 / 30);
               quality_score = fst st + rate_score;
               factors = snd st
           in if 0 < rc then
                (quality_score, factors @ [[Num (py_round_nd rc 1), Txt ''% above market rate'']])
              else if rc < 0 then
                (quality_score,
                 factors @ [[Num \<bar>py_round_nd rc 1\<bar>, Txt ''% below market rate'']])
              else (quality_score, factors)))"

text \<open>Factor 2: weather risk.\<close>

definition factor_weather :: "real \<Rightarrow> score_state \<Rightarrow> score_state" where
  "factor_weather weather_risk_score st =
     (let weather_impact = - (weather_risk_score / (667 / 100));
          quality_score = fst st + weather_impact;
          factors = snd st
      in if 50 < weather_risk_score then (quality_score, factors @ [[Txt ''High weather risk'']])
         else if 25 < weather_risk_score then
           (quality_score, factors @ [[Txt ''Moderate weather risk'']])
         else (quality_score, factors))"

text \<open>Factor 3: weather delay.\<close>

definition factor_delay :: "real \<Rightarrow> score_state \<Rightarrow> score_state" where
  "factor_delay weather_delay_hours st =
     (if 0 < weather_delay_hours then
        (let delay_impact = - min (weather_delay_hours * 3) 15;
             quality_score = fst st + delay_impact;
             factors = snd st
         in if 4 \<le> weather_delay_hours then
              (quality_score,
               factors @ [[Txt ''Severe delay risk ('', Num weather_delay_hours, Txt '' hrs)'']])
            else if 2 \<le> weather_delay_hours then
              (quality_score,
               factors @ [[Txt ''Significant delay risk ('', Num weather_delay_hours, Txt '' hrs)'']])
            else (quality_score, factors))
      else st)"

text \<open>Factor 4: deadhead.\<close>

definition factor_deadhead :: "real \<Rightarrow> score_state \<Rightarrow> score_state" where
  "factor_deadhead deadhead_ratio st =
     (if 0 < deadhead_ratio then
        (let deadhead_impact = - min (deadhead_ratio * 40) 20;
             quality_score = fst st + deadhead_impact;
             factors = snd st
         in if 4 / 10 < deadhead_ratio then
              (quality_score,
               factors @ [[Txt ''Excessive deadhead ('',
                           Num (of_int (py_round (deadhead_ratio * 100))), Txt ''%)'']])
            else if 25 / 100 < deadhead_ratio then
              (quality_score,
               factors @ [[Txt ''High deadhead ('',
                           Num (of_int (py_round (deadhead_ratio * 100))), Txt ''%)'']])
            else (quality_score, factors))
      else st)"

text \<open>Factor 5: driver pay, skipped unless the argument is a positive number.\<close>

definition factor_pay :: "pyval \<Rightarrow> score_state \<Rightarrow> score_state" where
  "factor_pay driver_pay st =
     (case driver_pay of
        PyStr _ \<Rightarrow> st
      | PyNum pay \<Rightarrow>
          if 0 < pay then
            (if 500 < pay then (fst st + 15, snd st @ [[Txt ''Excellent pay'']])
             else if 350 < pay then (fst st + 10, snd st @ [[Txt ''Good pay'']])
             else if 250 < pay then (fst st + 5, snd st)
             else (fst st + 0, snd st))
          else st)"

text \<open>
  The state after the five blocks: the unclamped \<^verbatim>\<open>quality_score\<close> and the
  complete list \<^verbatim>\<open>factors\<close>, before \<^verbatim>\<open>factors[:3]\<close>.
\<close>

definition score_factors ::
  "pyval \<Rightarrow> real \<Rightarrow> real \<Rightarrow> real \<Rightarrow> pyval \<Rightarrow> real \<Rightarrow> score_state" where
  "score_factors rate_comparison weather_risk_score deadhead_ratio trip_miles driver_pay
     weather_delay_hours =
     factor_pay driver_pay
       (factor_deadhead deadhead_ratio
         (factor_delay weather_delay_hours
           (factor_weather weather_risk_score
             (factor_rate rate_comparison (50, [])))))"

definition score_category :: "int \<Rightarrow> string" where
  "score_category final_score =
     (if 80 \<le> final_score then ''Excellent''
      else if 65 \<le> final_score then ''Good''
      else if 45 \<le> final_score then ''Average''
      else if 25 \<le> final_score then ''Poor''
      else ''Very Poor'')"

definition calculate_load_score ::
  "pyval \<Rightarrow> real \<Rightarrow> real \<Rightarrow> real \<Rightarrow> pyval \<Rightarrow> real \<Rightarrow> load_score" where
  "calculate_load_score rate_comparison weather_risk_score deadhead_ratio trip_miles driver_pay
     weather_delay_hours =
     (let st = score_factors rate_comparison weather_risk_score deadhead_ratio trip_miles
                 driver_pay weather_delay_hours;
          final_score = py_round (max 0 (min 100 (fst st)))
      in \<lparr>score = final_score,
          category = score_category final_score,
          key_factors = take 3 (snd st)\<rparr>)"

subsection \<open>Weather data\<close>

text \<open>
  The dictionaries built by \<^verbatim>\<open>get_weather_data\<close>. A successful result has the keys
  location, hourly_forecast, daily_forecast and api_status; a failed one has error and
  api_status. Every key is optional in the record, so that both shapes, and the empty
  dictionary, are values of it.
\<close>

record location =
  latitude :: real
  longitude :: real
  timezone :: string
  elevation :: "real option"

record hour =
  h_time :: string
  h_temperature_celsius :: real
  h_precipitation_mm :: real
  h_wind_speed_kmh :: real
  h_weather_code :: int
  h_weather_description :: string

record daily =
  d_date :: string
  d_weather_code :: int
  d_weather_description :: "string option"
  d_max_temperature_celsius :: real
  d_min_temperature_celsius :: real
  d_precipitation_sum_mm :: real

record weather_data =
  wd_error :: "string option"
  wd_api_status :: "string option"
  wd_location :: "location option"
  wd_hourly_forecast :: "hour list option"
  wd_daily_forecast :: "daily list option"


subsection \<open>check_for_hazards\<close>

text \<open>
  A hazard dictionary always has type, time and severity; Heavy Rain adds
  precipitation and High Winds adds wind_speed.
\<close>

record hazard =
  hz_type :: string
  hz_time :: string
  hz_severity :: string
  hz_precipitation :: "real option"
  hz_wind_speed :: "real option"

record hazard_report =
  hr_location :: location
  hr_hazards :: "hazard list"
  hr_hazard_count :: nat
  hr_has_severe_hazards :: bool

datatype hazard_result = HazardError string | HazardReport hazard_report

text \<open>The chain \<^verbatim>\<open>if / elif\<close> on the weather code: at most one branch runs.\<close>

definition code_hazard :: "hour \<Rightarrow> hazard list" where
  "code_hazard hour =
     (let weather_code = h_weather_code hour
      in if weather_code \<in> set [71, 73, 75, 77, 85, 86] then
           [\<lparr>hz_type = ''Snow'', hz_time = h_time hour,
             hz_severity = (if weather_code \<in> set [75, 86] then ''high'' else ''medium''),
             hz_precipitation = None, hz_wind_speed = None\<rparr>]
         else if weather_code \<in> set [95, 96, 99] then
           [\<lparr>hz_type = ''Thunderstorm'', hz_time = h_time hour, hz_severity = ''high'',
             hz_precipitation = None, hz_wind_speed = None\<rparr>]
         else if weather_code \<in> set [66, 67] then
           [\<lparr>hz_type = ''Freezing Rain'', hz_time = h_time hour, hz_severity = ''high'',
             hz_precipitation = None, hz_wind_speed = None\<rparr>]
         else if weather_code \<in> set [45, 48] then
           [\<lparr>hz_type = ''Fog'', hz_time = h_time hour, hz_severity = ''medium'',
             hz_precipitation = None, hz_wind_speed = None\<rparr>]
         else [])"

text \<open>The two independent threshold checks.\<close>

definition rain_hazard :: "hour \<Rightarrow> hazard list" where
  "rain_hazard hour =
     (if 4 < h_precipitation_mm hour then
        [\<lparr>hz_type = ''Heavy Rain'', hz_time = h_time hour, hz_severity = ''medium'',
          hz_precipitation = Some (h_precipitation_mm hour), hz_wind_speed = None\<rparr>]
      else [])"

definition wind_hazard :: "hour \<Rightarrow> hazard list" where
  "wind_hazard hour =
     (if 30 < h_wind_speed_kmh hour then
        [\<lparr>hz_type = ''High Winds'', hz_time = h_time hour,
          hz_severity = (if h_wind_speed_kmh hour < 50 then ''medium'' else ''high''),
          hz_precipitation = None, hz_wind_speed = Some (h_wind_speed_kmh hour)\<rparr>]
      else [])"

text \<open>What one iteration of the loop appends to \<^verbatim>\<open>hazards\<close>.\<close>

definition hour_hazards :: "hour \<Rightarrow> hazard list" where
  "hour_hazards hour = code_hazard hour @ rain_hazard hour @ wind_hazard hour"

fun hazards_loop :: "hour list \<Rightarrow> hazard list \<Rightarrow> hazard list" where
  "hazards_loop [] hazards = hazards"
| "hazards_loop (hour # rest) hazards = hazards_loop rest (hazards @ hour_hazards hour)"

definition check_for_hazards :: "weather_data \<Rightarrow> py_error + hazard_result" where
  "check_for_hazards weather_data =
     (case wd_error weather_data of
        Some e \<Rightarrow> Inr (HazardError e)
      | None \<Rightarrow>
          (case wd_hourly_forecast weather_data of
             None \<Rightarrow> Inl (KeyError ''hourly_forecast'')
           | Some hourly_forecast \<Rightarrow>
               (let hazards = hazards_loop hourly_forecast []
                in case wd_location weather_data of
                     None \<Rightarrow> Inl (KeyError ''location'')
                   | Some loc \<Rightarrow>
                       Inr (HazardReport
                         \<lparr>hr_location = loc,
                          hr_hazards = hazards,
                          hr_hazard_count = length hazards,
                          hr_has_severe_hazards =
                            list_ex (\<lambda>h. hz_severity h = ''high'') hazards\<rparr>))))"

subsection \<open>estimate_weather_delay\<close>

record delay_factor =
  df_type :: string
  df_severity :: string
  df_delay_hours :: real

text \<open>The early return has no key delay_percentage.\<close>

record delay_estimate =
  estimated_delay_hours :: real
  delay_percentage :: "real option"
  delay_factors :: "delay_factor list"
  impact_level :: string

text \<open>
  The nested dictionary \<^verbatim>\<open>weather_impacts\<close>: type, then severity, then the pair
  (share of normal speed, share of the route affected).
\<close>

definition weather_impacts :: "(string \<times> (string \<times> real \<times> real) list) list" where
  "weather_impacts =
     [(''Snow'', [(''high'', (4 / 10, 6 / 10)), (''medium'', (6 / 10, 5 / 10))]),
      (''Freezing Rain'', [(''high'', (35 / 100, 5 / 10)), (''medium'', (5 / 10, 4 / 10))]),
      (''Thunderstorm'', [(''high'', (5 / 10, 3 / 10)), (''medium'', (7 / 10, 2 / 10))]),
      (''Fog'', [(''high'', (4 / 10, 4 / 10)), (''medium'', (6 / 10, 3 / 10))]),
      (''Heavy Rain'', [(''high'', (6 / 10, 4 / 10)), (''medium'', (7 / 10, 3 / 10))]),
      (''High Winds'', [(''high'', (7 / 10, 6 / 10)), (''medium'', (8 / 10, 4 / 10))])]"

definition normal_speed_mph :: real where
  "normal_speed_mph = 55"

text \<open>
  The delay of one hazard, when its type and severity are in the table. The divisors are
  the constant 55 and 55 times a speed factor of the table, none of which is zero.
\<close>

definition segment_delay :: "real \<Rightarrow> hazard \<Rightarrow> real option" where
  "segment_delay trip_miles hazard =
     (case map_of weather_impacts (hz_type hazard) of
        None \<Rightarrow> None
      | Some by_severity \<Rightarrow>
          (case map_of by_severity (hz_severity hazard) of
             None \<Rightarrow> None
           | Some (speed_factor, route_affected) \<Rightarrow>
               (let affected_miles = trip_miles * route_affected;
                    normal_segment_time = affected_miles / normal_speed_mph;
                    actual_segment_time = affected_miles / (normal_speed_mph * speed_factor)
                in Some (actual_segment_time - normal_segment_time))))"

text \<open>One iteration of the loop over the hazards, on the locals
  \<^verbatim>\<open>total_delay_hours\<close> and \<^verbatim>\<open>delay_factors\<close>.\<close>

definition delay_step :: "real \<Rightarrow> hazard \<Rightarrow> real \<times> delay_factor list \<Rightarrow> real \<times> delay_factor list"
  where
  "delay_step trip_miles hazard st =
     (case segment_delay trip_miles hazard of
        None \<Rightarrow> st
      | Some delay \<Rightarrow>
          if 25 / 100 < delay then
            (fst st + delay,
             snd st @ [\<lparr>df_type = hz_type hazard, df_severity = hz_severity hazard,
                        df_delay_hours = py_round_nd delay 1\<rparr>])
          else st)"

fun delay_loop :: "real \<Rightarrow> hazard list \<Rightarrow> real \<times> delay_factor list \<Rightarrow> real \<times> delay_factor list"
  where
  "delay_loop trip_miles [] st = st"
| "delay_loop trip_miles (hazard # rest) st =
     delay_loop trip_miles rest (delay_step trip_miles hazard st)"

definition impact_of :: "real \<Rightarrow> string" where
  "impact_of total_delay_hours =
     (if total_delay_hours < 5 / 10 then ''Minimal''
      else if total_delay_hours < 2 then ''Moderate''
      else if total_delay_hours < 4 then ''Significant''
      else ''Severe'')"

definition estimate_weather_delay :: "hazard list \<Rightarrow> real \<Rightarrow> py_error + delay_estimate" where
  "estimate_weather_delay hazards trip_miles =
     (if hazards = [] \<or> trip_miles \<le> 0 then
        Inr \<lparr>estimated_delay_hours = 0, delay_percentage = None, delay_factors = [],
             impact_level = ''None''\<rparr>
      else
        (let normal_trip_time = trip_miles / normal_speed_mph;
             st = delay_loop trip_miles hazards (0, []);
             total_delay_hours = fst st;
             impact = impact_of total_delay_hours
         in bind_err (py_div total_delay_hours normal_trip_time) (\<lambda>share.
              Inr \<lparr>estimated_delay_hours = py_round_nd total_delay_hours 1,
                   delay_percentage = Some (py_round_nd (share * 100) 1),
                   delay_factors = snd st,
                   impact_level = impact\<rparr>)))"

subsection \<open>get_simple_weather_analysis\<close>


















subsection \<open>calculate_deadhead_analysis\<close>

record deadhead_analysis =
  da_origin_deadhead_miles :: real
  da_destination_deadhead_miles :: real
  da_total_deadhead_miles :: real
  da_origin_deadhead_ratio :: real
  da_destination_deadhead_ratio :: real
  da_total_deadhead_ratio :: real
  da_paid_miles_percentage :: real
  da_unpaid_miles_percentage :: real
  da_severity :: string
  da_impact :: string
  da_summary :: fstring

text \<open>
  The two shapes of the result: status invalid, with a message only, and status success,
  with the analysis.
\<close>

datatype deadhead_result = DeadheadInvalid string | DeadheadSuccess deadhead_analysis

text \<open>
  The arithmetic of this function is binary64: the miles are floats (or integers below
  \<open>2 ^ 53\<close>, on which the rounding of a sum is the identity), and every sum, quotient
  and product is rounded.
\<close>

text \<open>\<^verbatim>\<open>round(a / b, 2) if b > 0 else 0\<close>\<close>

definition rounded_ratio :: "real \<Rightarrow> real \<Rightarrow> py_error + real" where
  "rounded_ratio a b =
     (if 0 < b then bind_err (float_div a b) (\<lambda>q. Inr (float_round q 2)) else Inr 0)"

text \<open>\<^verbatim>\<open>round((a / b) * 100, 1) if b > 0 else 0\<close>\<close>

definition rounded_percentage :: "real \<Rightarrow> real \<Rightarrow> py_error + real" where
  "rounded_percentage a b =
     (if 0 < b then bind_err (float_div a b) (\<lambda>q. Inr (float_round (fl64 (q * 100)) 1))
      else Inr 0)"

text \<open>The literals 0.1, 0.2, 0.3 and 0.5 are the floats nearest to them.\<close>

definition deadhead_severity :: "real \<Rightarrow> string \<times> string" where
  "deadhead_severity total_deadhead_ratio =
     (if total_deadhead_ratio \<le> fl64 (1 / 10) then (''Excellent'', ''Very Low'')
      else if total_deadhead_ratio \<le> fl64 (2 / 10) then (''Good'', ''Low'')
      else if total_deadhead_ratio \<le> fl64 (3 / 10) then (''Average'', ''Moderate'')
      else if total_deadhead_ratio \<le> fl64 (5 / 10) then (''Poor'', ''High'')
      else (''Very Poor'', ''Severe''))"

definition deadhead_focus :: "real \<Rightarrow> real \<Rightarrow> string" where
  "deadhead_focus origin_deadhead_miles destination_deadhead_miles =
     (if destination_deadhead_miles < origin_deadhead_miles then
        ''Pickup deadhead is your main concern.''
      else if origin_deadhead_miles < destination_deadhead_miles then
        ''Consider your next load after delivery.''
      else [])"

definition calculate_deadhead_analysis :: "real \<Rightarrow> real \<Rightarrow> real \<Rightarrow> py_error + deadhead_result"
  where
  "calculate_deadhead_analysis origin_deadhead_miles destination_deadhead_miles trip_miles =
     (if trip_miles \<le> 0 then Inr (DeadheadInvalid ''Trip miles must be greater than zero'')
      else
        (let total_deadhead = fl64 (origin_deadhead_miles + destination_deadhead_miles)
         in bind_err (rounded_ratio origin_deadhead_miles trip_miles) (\<lambda>origin_deadhead_ratio.
            bind_err (rounded_ratio destination_deadhead_miles trip_miles)
              (\<lambda>destination_deadhead_ratio.
            bind_err (rounded_ratio total_deadhead trip_miles) (\<lambda>total_deadhead_ratio.
              (let total_distance = fl64 (trip_miles + total_deadhead)
               in bind_err (rounded_percentage trip_miles total_distance)
                    (\<lambda>paid_miles_percentage.
                  bind_err (rounded_percentage total_deadhead total_distance)
                    (\<lambda>unpaid_miles_percentage.
                    (let sev = deadhead_severity total_deadhead_ratio;
                         focus = deadhead_focus origin_deadhead_miles
                                   destination_deadhead_miles;
                         summary =
                           [Txt (''Deadhead is '' @ py_lower (fst sev) @ '' at ''),
                            Num (of_int (py_round (fl64 (total_deadhead_ratio * 100)))),
                            Txt (''% of loaded miles. '' @ focus)]
                     in Inr (DeadheadSuccess
                          \<lparr>da_origin_deadhead_miles = origin_deadhead_miles,
                           da_destination_deadhead_miles = destination_deadhead_miles,
                           da_total_deadhead_miles = total_deadhead,
                           da_origin_deadhead_ratio = origin_deadhead_ratio,
                           da_destination_deadhead_ratio = destination_deadhead_ratio,
                           da_total_deadhead_ratio = total_deadhead_ratio,
                           da_paid_miles_percentage = paid_miles_percentage,
                           da_unpaid_miles_percentage = unpaid_miles_percentage,
                           da_severity = fst sev,
                           da_impact = snd sev,
                           da_summary = summary\<rparr>))))))))))"

subsection \<open>get_rate_comparison\<close>

record rate_comparison =
  broker_rate_per_mile :: pyval
  market_rate_per_mile :: pyval
  difference_percentage :: pyval
  comparison :: fstring




section \<open>Properties\<close>

subsection \<open>Rounding\<close>

lemma py_round_cases: "py_round x = \<lfloor>x\<rfloor> \<or> py_round x = \<lfloor>x\<rfloor> + 1"
  by (simp add: py_round_def Let_def)

lemma py_round_of_int [simp]: "py_round (of_int n) = n"
  by (simp add: py_round_def)

lemma py_round_lower: "of_int n \<le> x \<Longrightarrow> n \<le> py_round x"
proof -
  assume "of_int n \<le> x"
  then have "n \<le> \<lfloor>x\<rfloor>" by (simp add: le_floor_iff)
  then show ?thesis using py_round_cases [of x] by auto
qed

lemma py_round_upper: "x \<le> of_int n \<Longrightarrow> py_round x \<le> n"
proof (cases "x - of_int \<lfloor>x\<rfloor> < 1 / 2")
  case True
  assume "x \<le> of_int n"
  then have "\<lfloor>x\<rfloor> \<le> n" by (simp add: floor_le_iff)
  then show ?thesis using True by (simp add: py_round_def)
next
  case False
  assume le: "x \<le> of_int n"
  have "of_int \<lfloor>x\<rfloor> < x" using False by linarith
  then have "of_int \<lfloor>x\<rfloor> < (of_int n :: real)" using le by linarith
  then have "\<lfloor>x\<rfloor> < n" by simp
  then show ?thesis using py_round_cases [of x] by auto
qed

subsection \<open>The load quality score\<close>

text \<open>
  C1. For every combination of inputs, numeric or not, the score returned by
  \<^verbatim>\<open>calculate_load_score\<close> is an integer between 0 and 100, both included.
\<close>

theorem calculate_load_score_range:
  "0 \<le> score (calculate_load_score rc w d t p h) \<and>
   score (calculate_load_score rc w d t p h) \<le> 100"
proof -
  define q where "q = max 0 (min 100 (fst (score_factors rc w d t p h)))"
  have lo: "of_int 0 \<le> q" and hi: "q \<le> of_int 100"
    by (simp_all add: q_def)
  have "0 \<le> py_round q"
    by (rule py_round_lower [OF lo])
  moreover have "py_round q \<le> 100"
    by (rule py_round_upper [OF hi])
  ultimately show ?thesis
    by (simp add: calculate_load_score_def Let_def q_def)
qed

text \<open>The extreme inputs named by the specification, in both directions of the rate.\<close>

theorem calculate_load_score_range_witness:
  "0 \<le> score (calculate_load_score (PyNum 1000) 100 5 500 (PyNum 100000) 100) \<and>
   score (calculate_load_score (PyNum 1000) 100 5 500 (PyNum 100000) 100) \<le> 100 \<and>
   0 \<le> score (calculate_load_score (PyNum (- 1000)) 100 5 500 (PyNum 100000) 100) \<and>
   score (calculate_load_score (PyNum (- 1000)) 100 5 500 (PyNum 100000) 100) \<le> 100"
  using calculate_load_score_range [of "PyNum 1000" 100 5 500 "PyNum 100000" 100]
    calculate_load_score_range [of "PyNum (- 1000)" 100 5 500 "PyNum 100000" 100]
  by simp

lemmas factor_defs =
  score_factors_def factor_rate_def factor_weather_def factor_delay_def factor_deadhead_def
  factor_pay_def

text \<open>
  C2. On difference 20, risk score 0, deadhead ratio 0, 500 trip miles, pay 600 and no
  delay, the unclamped score is 50 + 20 * (25/30) + 15 = 245/3, the score is 82 and the
  category is Excellent.
\<close>

theorem calculate_load_score_scenario:
  "fst (score_factors (PyNum 20) 0 0 500 (PyNum 600) 0) = 50 + 20 * (25 / 30) + 15 \<and>
   score (calculate_load_score (PyNum 20) 0 0 500 (PyNum 600) 0) = 82 \<and>
   category (calculate_load_score (PyNum 20) 0 0 500 (PyNum 600) 0) = ''Excellent''"
  by (simp add: calculate_load_score_def factor_defs score_category_def py_round_def Let_def)

text \<open>
  C10. The argument \<^verbatim>\<open>trip_miles\<close> has no influence on the result: two calls that
  differ in it alone return the same score, category and key factors.
\<close>

theorem calculate_load_score_ignores_trip_miles:
  "calculate_load_score rc w d t1 p h = calculate_load_score rc w d t2 p h"
  by (simp add: calculate_load_score_def score_factors_def)

text \<open>
  C6, as the code has it. The specification promises a pay phrase for every pay above
  250. The code appends one only when the pay is a number above 350: ``Excellent pay''
  above 500 and ``Good pay'' above 350. A pay in (250, 350] adds 5 points to the score and
  no phrase, a pay of at most 250 adds neither, and a pay that is not a number leaves both
  the score and the list as the first four blocks made them. The list meant is the list
  of candidates, before the truncation to three.
\<close>

theorem pay_tier_phrase:
  "(let prior = factor_deadhead d (factor_delay h (factor_weather w (factor_rate rc (50, []))))
    in score_factors rc w d t (PyNum pay) h =
         (fst prior +
            (if 500 < pay then 15 else if 350 < pay then 10 else if 250 < pay then 5 else 0),
          snd prior @
            (if 500 < pay then [[Txt ''Excellent pay'']]
             else if 350 < pay then [[Txt ''Good pay'']]
             else [])) \<and>
       score_factors rc w d t (PyStr s) h = prior)"
  by (simp add: score_factors_def factor_pay_def Let_def)

text \<open>
  Pay 600 and pay 400 add their points and their phrase to the base score of 50, pay 300
  adds 5 points only, and the text ``Not Available'' adds nothing.
\<close>

theorem pay_tier_phrase_witness:
  "score_factors (PyNum 0) 0 0 500 (PyNum 600) 0 = (65, [[Txt ''Excellent pay'']]) \<and>
   score_factors (PyNum 0) 0 0 500 (PyNum 400) 0 = (60, [[Txt ''Good pay'']]) \<and>
   score_factors (PyNum 0) 0 0 500 (PyNum 260) 0 = (55, []) \<and>
   score_factors (PyNum 0) 0 0 500 (PyStr ''Not Available'') 0 = (50, [])"
  using pay_tier_phrase [of 0 0 0 "PyNum 0" 500 600 "''Not Available''"]
    pay_tier_phrase [of 0 0 0 "PyNum 0" 500 400 "''Not Available''"]
    pay_tier_phrase [of 0 0 0 "PyNum 0" 500 260 "''Not Available''"]
  by (simp add: factor_rate_def factor_weather_def factor_delay_def factor_deadhead_def Let_def)

text \<open>
  C6 as stated fails at pay 300: the pay is above 250, the bonus of 5 is added to the base
  score of 50, and no phrase enters the list.
\<close>

theorem pay_tier_phrase_counterexample:
  "(250::real) < 300 \<and>
   fst (score_factors (PyNum 0) 0 0 500 (PyNum 300) 0) = 55 \<and>
   snd (score_factors (PyNum 0) 0 0 500 (PyNum 300) 0) = [] \<and>
   key_factors (calculate_load_score (PyNum 0) 0 0 500 (PyNum 300) 0) = []"
  by (simp add: calculate_load_score_def factor_defs Let_def)

subsection \<open>Hazards of a sample\<close>

lemma hazards_loop_append: "hazards_loop hs acc = acc @ concat (map hour_hazards hs)"
  by (induction hs arbitrary: acc) simp_all

lemma code_hazard_length: "length (code_hazard h) \<le> 1"
  by (simp add: code_hazard_def Let_def)

lemma hour_hazards_length: "length (hour_hazards h) \<le> 3"
  using code_hazard_length [of h]
  by (simp add: hour_hazards_def rain_hazard_def wind_hazard_def)

text \<open>
  C5, as the code has it. One hourly sample yields at most three hazards: at most one
  from the weather code, and independently one for heavy rain and one for high winds.
  On a forecast of a single sample, \<^verbatim>\<open>check_for_hazards\<close> returns exactly the hazards of
  that sample, and counts at most three.
\<close>

theorem hazards_per_sample:
  assumes "wd_error wd = None" and "wd_hourly_forecast wd = Some [h]"
    and "wd_location wd = Some l"
  shows "\<exists>r. check_for_hazards wd = Inr (HazardReport r) \<and> hr_hazards r = hour_hazards h \<and>
     hr_hazard_count r = length (hour_hazards h) \<and> hr_hazard_count r \<le> 3"
  using assms hour_hazards_length [of h]
  by (simp add: check_for_hazards_def hazards_loop_append Let_def)

text \<open>A sample with 5 mm of rain, light wind and a clear sky code: one hazard.\<close>

theorem hazards_per_sample_witness:
  "\<exists>r. check_for_hazards
      \<lparr>wd_error = None, wd_api_status = Some ''success'',
       wd_location = Some \<lparr>latitude = 41, longitude = - 87, timezone = ''America/Chicago'',
                           elevation = None\<rparr>,
       wd_hourly_forecast = Some [\<lparr>h_time = ''2024-01-01T00:00'', h_temperature_celsius = 3,
          h_precipitation_mm = 5, h_wind_speed_kmh = 20, h_weather_code = 0,
          h_weather_description = ''Clear sky''\<rparr>],
       wd_daily_forecast = Some []\<rparr> = Inr (HazardReport r) \<and>
     map hz_type (hr_hazards r) = [''Heavy Rain''] \<and> hr_hazard_count r \<le> 3"
  using hazards_per_sample
    [of "\<lparr>wd_error = None, wd_api_status = Some ''success'',
       wd_location = Some \<lparr>latitude = 41, longitude = - 87, timezone = ''America/Chicago'',
                           elevation = None\<rparr>,
       wd_hourly_forecast = Some [\<lparr>h_time = ''2024-01-01T00:00'', h_temperature_celsius = 3,
          h_precipitation_mm = 5, h_wind_speed_kmh = 20, h_weather_code = 0,
          h_weather_description = ''Clear sky''\<rparr>],
       wd_daily_forecast = Some []\<rparr>"
      "\<lparr>h_time = ''2024-01-01T00:00'', h_temperature_celsius = 3,
          h_precipitation_mm = 5, h_wind_speed_kmh = 20, h_weather_code = 0,
          h_weather_description = ''Clear sky''\<rparr>"
      "\<lparr>latitude = 41, longitude = - 87, timezone = ''America/Chicago'', elevation = None\<rparr>"]
  by (auto simp: hour_hazards_def code_hazard_def rain_hazard_def wind_hazard_def)

text \<open>
  C5 as stated fails on a sample with heavy snow (code 75), 5 mm of rain and wind of
  40 km/h: three hazards come from that one sample.
\<close>

theorem hazards_per_sample_counterexample:
  "check_for_hazards
      \<lparr>wd_error = None, wd_api_status = Some ''success'',
       wd_location = Some \<lparr>latitude = 41, longitude = - 87, timezone = ''America/Chicago'',
                           elevation = None\<rparr>,
       wd_hourly_forecast = Some [\<lparr>h_time = ''2024-01-01T00:00'', h_temperature_celsius = - 5,
          h_precipitation_mm = 5, h_wind_speed_kmh = 40, h_weather_code = 75,
          h_weather_description = ''Heavy snow fall''\<rparr>],
       wd_daily_forecast = Some []\<rparr> =
   Inr (HazardReport
     \<lparr>hr_location = \<lparr>latitude = 41, longitude = - 87, timezone = ''America/Chicago'',
                      elevation = None\<rparr>,
      hr_hazards =
        [\<lparr>hz_type = ''Snow'', hz_time = ''2024-01-01T00:00'', hz_severity = ''high'',
          hz_precipitation = None, hz_wind_speed = None\<rparr>,
         \<lparr>hz_type = ''Heavy Rain'', hz_time = ''2024-01-01T00:00'', hz_severity = ''medium'',
          hz_precipitation = Some 5, hz_wind_speed = None\<rparr>,
         \<lparr>hz_type = ''High Winds'', hz_time = ''2024-01-01T00:00'', hz_severity = ''medium'',
          hz_precipitation = None, hz_wind_speed = Some 40\<rparr>],
      hr_hazard_count = 3,
      hr_has_severe_hazards = True\<rparr>)"
  by (simp add: check_for_hazards_def hour_hazards_def code_hazard_def rain_hazard_def
      wind_hazard_def Let_def)

subsection \<open>The delay estimate\<close>

lemma impact_of_not_None: "impact_of x \<noteq> ''None''"
  by (simp add: impact_of_def)

lemma delay_step_nonneg: "0 \<le> fst st \<Longrightarrow> 0 \<le> fst (delay_step t h st)"
  by (simp add: delay_step_def split: option.splits)

lemma delay_loop_nonneg: "0 \<le> fst st \<Longrightarrow> 0 \<le> fst (delay_loop t hs st)"
  by (induction hs arbitrary: st) (simp_all add: delay_step_nonneg)

lemma estimate_weather_delay_early:
  "hs = [] \<or> t \<le> 0 \<Longrightarrow>
   estimate_weather_delay hs t =
     Inr \<lparr>estimated_delay_hours = 0, delay_percentage = None, delay_factors = [],
          impact_level = ''None''\<rparr>"
  by (simp add: estimate_weather_delay_def)

lemma estimate_weather_delay_main:
  "hs \<noteq> [] \<Longrightarrow> 0 < t \<Longrightarrow>
   estimate_weather_delay hs t =
     Inr \<lparr>estimated_delay_hours = py_round_nd (fst (delay_loop t hs (0, []))) 1,
          delay_percentage =
            Some (py_round_nd (fst (delay_loop t hs (0, [])) / (t / 55) * 100) 1),
          delay_factors = snd (delay_loop t hs (0, [])),
          impact_level = impact_of (fst (delay_loop t hs (0, [])))\<rparr>"
  by (simp add: estimate_weather_delay_def normal_speed_mph_def py_div_def bind_err_def Let_def)


lemma py_round_nd_nonneg: "0 \<le> x \<Longrightarrow> 0 \<le> py_round_nd x n"
proof -
  assume "0 \<le> x"
  then have "of_int 0 \<le> x * 10 ^ n" by simp
  then have "0 \<le> py_round (x * 10 ^ n)" by (rule py_round_lower)
  then show ?thesis by (simp add: py_round_nd_def)
qed

text \<open>
  C4, as the code has it. \<^verbatim>\<open>estimate_weather_delay\<close> always returns, and its impact
  level is ``None'' exactly when the hazard list is empty or \<^verbatim>\<open>trip_miles\<close> is not
  positive. Otherwise the level is read off the total of the delays that passed the
  quarter-hour floor, a total that is non-negative and may be zero: ``Minimal'' stands for
  every total below half an hour, zero included.
\<close>

theorem estimate_weather_delay_impact:
  "\<exists>r. estimate_weather_delay hs t = Inr r \<and>
     ((impact_level r = ''None'') = (hs = [] \<or> t \<le> 0)) \<and>
     0 \<le> estimated_delay_hours r \<and>
     (hs \<noteq> [] \<and> 0 < t \<longrightarrow>
        0 \<le> fst (delay_loop t hs (0, [])) \<and>
        impact_level r = impact_of (fst (delay_loop t hs (0, []))) \<and>
        ((impact_level r = ''Minimal'') = (fst (delay_loop t hs (0, [])) < 1 / 2)))"
proof (cases "hs = [] \<or> t \<le> 0")
  case True
  then show ?thesis by (auto simp: estimate_weather_delay_early)
next
  case False
  then have ne: "hs \<noteq> []" and pos: "0 < t" by auto
  have total: "0 \<le> fst (delay_loop t hs (0, []))"
    by (rule delay_loop_nonneg) simp
  have "(impact_of (fst (delay_loop t hs (0, []))) = ''Minimal'') =
      (fst (delay_loop t hs (0, [])) < 1 / 2)"
    by (simp add: impact_of_def)
  with total ne pos show ?thesis
    by (simp add: estimate_weather_delay_main impact_of_not_None py_round_nd_nonneg)
qed

text \<open>
  Heavy snow on 550 miles: 330 miles at 22 mph instead of 55 mph, nine hours of delay,
  level ``Severe''.
\<close>

theorem estimate_weather_delay_impact_witness:
  "[\<lparr>hz_type = ''Snow'', hz_time = ''2024-01-01T06:00'', hz_severity = ''high'',
      hz_precipitation = None, hz_wind_speed = None\<rparr>] \<noteq> [] \<and> (0::real) < 550 \<and>
   (\<exists>r. estimate_weather_delay
      [\<lparr>hz_type = ''Snow'', hz_time = ''2024-01-01T06:00'', hz_severity = ''high'',
        hz_precipitation = None, hz_wind_speed = None\<rparr>] 550 = Inr r \<and>
      impact_level r = ''Severe'' \<and> impact_level r \<noteq> ''None'')"
  using estimate_weather_delay_impact
    [of "[\<lparr>hz_type = ''Snow'', hz_time = ''2024-01-01T06:00'', hz_severity = ''high'',
        hz_precipitation = None, hz_wind_speed = None\<rparr>]" 550]
  by (auto simp: delay_step_def segment_delay_def weather_impacts_def
      normal_speed_mph_def impact_of_def)

text \<open>
  C4 as stated fails on one medium fog hazard and a trip of 10 miles: the list is not
  empty and the miles are positive, the only delay (2/55 of an hour) is under the floor
  and is discarded, and the result has zero hours with the level ``Minimal''.
\<close>

theorem estimate_weather_delay_impact_counterexample:
  "[\<lparr>hz_type = ''Fog'', hz_time = ''2024-01-01T06:00'', hz_severity = ''medium'',
      hz_precipitation = None, hz_wind_speed = None\<rparr>] \<noteq> [] \<and> (0::real) < 10 \<and>
   estimate_weather_delay
     [\<lparr>hz_type = ''Fog'', hz_time = ''2024-01-01T06:00'', hz_severity = ''medium'',
      hz_precipitation = None, hz_wind_speed = None\<rparr>] 10 =
     Inr \<lparr>estimated_delay_hours = 0, delay_percentage = Some 0, delay_factors = [],
          impact_level = ''Minimal''\<rparr>"
  by (simp add: estimate_weather_delay_def delay_step_def segment_delay_def weather_impacts_def
      normal_speed_mph_def impact_of_def py_div_def bind_err_def py_round_nd_def py_round_def
      Let_def)

subsection \<open>The weather analysis\<close>







subsection \<open>Binary floating point: the rounding error\<close>

lemma py_round_error: "\<bar>of_int (py_round y) - y\<bar> \<le> 1 / 2"
proof -
  have "of_int \<lfloor>y\<rfloor> \<le> y" and "y < of_int \<lfloor>y\<rfloor> + 1" by linarith+
  then show ?thesis
    by (simp add: py_round_def Let_def abs_le_iff)
qed

lemma expo_bounds:
  assumes "0 < x"
  shows "2 powi expo x \<le> x" and "x < 2 powi (expo x + 1)"
proof -
  show "2 powi expo x \<le> x"
  proof (cases "1 \<le> x")
    case True
    then have pos: "0 < \<lfloor>x\<rfloor>" by linarith
    from bitlen_bounds [OF pos] have "2 ^ nat (bitlen \<lfloor>x\<rfloor> - 1) \<le> \<lfloor>x\<rfloor>" by simp
    then have "(2::real) ^ nat (bitlen \<lfloor>x\<rfloor> - 1) \<le> of_int \<lfloor>x\<rfloor>"
      by (metis of_int_le_iff of_int_numeral of_int_power)
    also have "\<dots> \<le> x" by linarith
    finally have "(2::real) ^ nat (bitlen \<lfloor>x\<rfloor> - 1) \<le> x" .
    moreover have "1 \<le> bitlen \<lfloor>x\<rfloor>"
      using pos bitlen_eq_zero_iff [of "\<lfloor>x\<rfloor>"] bitlen_nonneg [of "\<lfloor>x\<rfloor>"] by linarith
    ultimately show ?thesis using True by (simp add: expo_def power_int_def)
  next
    case False
    then have inv: "1 < 1 / x" using assms by simp
    define c where "c = \<lceil>1 / x\<rceil> - 1"
    have cpos: "0 < c" using inv unfolding c_def by linarith
    from bitlen_bounds [OF cpos] have "c < 2 ^ nat (bitlen c)" by simp
    then have "c + 1 \<le> 2 ^ nat (bitlen c)" by simp
    then have "of_int (c + 1) \<le> (2::real) ^ nat (bitlen c)"
      by (metis of_int_le_iff of_int_numeral of_int_power)
    moreover have "1 / x \<le> of_int (c + 1)" unfolding c_def by (simp; linarith?)
    ultimately have "1 / x \<le> (2::real) ^ nat (bitlen c)" by linarith
    then have "1 \<le> x * 2 ^ nat (bitlen c)" using assms by (simp add: field_simps)
    then have "(1 / 2) ^ nat (bitlen c) \<le> x" by (simp add: power_divide field_simps)
    moreover have "0 \<le> bitlen c" by (rule bitlen_nonneg)
    moreover have "bitlen c \<noteq> 0" using cpos bitlen_eq_zero_iff [of c] by simp
    ultimately show ?thesis using False
      by (simp add: expo_def power_int_def c_def)
  qed
  show "x < 2 powi (expo x + 1)"
  proof (cases "1 \<le> x")
    case True
    then have pos: "0 < \<lfloor>x\<rfloor>" by linarith
    from bitlen_bounds [OF pos] have "\<lfloor>x\<rfloor> < 2 ^ nat (bitlen \<lfloor>x\<rfloor>)" by simp
    then have "\<lfloor>x\<rfloor> + 1 \<le> 2 ^ nat (bitlen \<lfloor>x\<rfloor>)" by simp
    then have "of_int (\<lfloor>x\<rfloor> + 1) \<le> (2::real) ^ nat (bitlen \<lfloor>x\<rfloor>)"
      by (metis of_int_le_iff of_int_numeral of_int_power)
    moreover have "x < of_int (\<lfloor>x\<rfloor> + 1)" by (simp; linarith?)
    ultimately have "x < (2::real) ^ nat (bitlen \<lfloor>x\<rfloor>)" by linarith
    moreover have "0 \<le> bitlen \<lfloor>x\<rfloor>" by (rule bitlen_nonneg)
    ultimately show ?thesis using True by (simp add: expo_def power_int_def)
  next
    case False
    then have inv: "1 < 1 / x" using assms by simp
    define c where "c = \<lceil>1 / x\<rceil> - 1"
    have cpos: "0 < c" using inv unfolding c_def by linarith
    have b1: "1 \<le> bitlen c"
      using cpos bitlen_eq_zero_iff [of c] bitlen_nonneg [of c] by linarith
    from bitlen_bounds [OF cpos] have "2 ^ nat (bitlen c - 1) \<le> c" by simp
    then have "(2::real) ^ nat (bitlen c - 1) \<le> of_int c"
      by (metis of_int_le_iff of_int_numeral of_int_power)
    moreover have "of_int c < 1 / x" unfolding c_def by (simp; linarith?)
    ultimately have "(2::real) ^ nat (bitlen c - 1) < 1 / x" by linarith
    then have "x * 2 ^ nat (bitlen c - 1) < 1" using assms by (simp add: field_simps)
    then have lt: "x < (1 / 2) ^ nat (bitlen c - 1)" by (simp add: power_divide field_simps)
    have "expo x + 1 = - (bitlen c - 1)" using False by (simp add: expo_def c_def)
    then have "2 powi (expo x + 1) = (1 / 2 :: real) ^ nat (bitlen c - 1)"
      using b1 by (simp add: power_int_def)
    with lt show ?thesis by simp
  qed
qed

text \<open>The relative error of one rounding is at most \<open>2 ^ -53\<close>.\<close>

lemma fl64_error: "\<bar>fl64 x - x\<bar> \<le> \<bar>x\<bar> / 2 ^ 53"
proof (cases "x = 0")
  case True
  then show ?thesis by (simp add: fl64_def)
next
  case False
  define ulp :: real where "ulp = 2 powi (expo \<bar>x\<bar> - 52)"
  have ulp_pos: "0 < ulp" by (simp add: ulp_def)
  have fl: "fl64 x = of_int (py_round (x / ulp)) * ulp"
    using False by (simp add: fl64_def ulp_def Let_def)
  have "\<bar>of_int (py_round (x / ulp)) - x / ulp\<bar> * ulp \<le> 1 / 2 * ulp"
    using py_round_error [of "x / ulp"] ulp_pos by (intro mult_right_mono) simp_all
  moreover have "\<bar>of_int (py_round (x / ulp)) - x / ulp\<bar> * ulp =
      \<bar>(of_int (py_round (x / ulp)) - x / ulp) * ulp\<bar>"
    using ulp_pos by (simp add: abs_mult)
  moreover have "(of_int (py_round (x / ulp)) - x / ulp) * ulp =
      of_int (py_round (x / ulp)) * ulp - x"
    using ulp_pos by (simp add: left_diff_distrib)
  ultimately have err: "\<bar>fl64 x - x\<bar> \<le> ulp / 2" using fl by simp
  have "ulp = 2 powi expo \<bar>x\<bar> / 2 ^ 52"
    by (simp add: ulp_def power_int_diff)
  moreover have "2 powi expo \<bar>x\<bar> \<le> \<bar>x\<bar>"
    using False by (intro expo_bounds) simp
  ultimately have "ulp / 2 \<le> \<bar>x\<bar> / 2 ^ 53" by simp
  with err show ?thesis by linarith
qed

lemma fl64_nonneg: "0 \<le> x \<Longrightarrow> 0 \<le> fl64 x"
proof (cases "x = 0")
  case True
  then show ?thesis by (simp add: fl64_def)
next
  case False
  assume "0 \<le> x"
  define ulp :: real where "ulp = 2 powi (expo \<bar>x\<bar> - 52)"
  have ulp_pos: "0 < ulp" by (simp add: ulp_def)
  have "of_int 0 \<le> x / ulp" using \<open>0 \<le> x\<close> ulp_pos by simp
  then have "0 \<le> py_round (x / ulp)" by (rule py_round_lower)
  then have "0 \<le> of_int (py_round (x / ulp)) * ulp" using ulp_pos by simp
  then show ?thesis using False by (simp add: fl64_def ulp_def Let_def)
qed

lemma fl64_bounds:
  assumes "0 \<le> x"
  shows "x * (1 - 1 / 2 ^ 53) \<le> fl64 x" and "fl64 x \<le> x * (1 + 1 / 2 ^ 53)"
proof -
  define d where "d = x / 2 ^ 53"
  have e: "\<bar>fl64 x - x\<bar> \<le> d"
    using fl64_error [of x] assms by (simp add: d_def)
  have lo: "x * (1 - 1 / 2 ^ 53) = x - d" by (simp add: d_def right_diff_distrib)
  have hi: "x * (1 + 1 / 2 ^ 53) = x + d" by (simp add: d_def distrib_left)
  show "x * (1 - 1 / 2 ^ 53) \<le> fl64 x" unfolding lo using e by linarith
  show "fl64 x \<le> x * (1 + 1 / 2 ^ 53)" unfolding hi using e by linarith
qed

text \<open>Rounding a percentage to one decimal moves it by a twentieth, and one rounding.\<close>

lemma float_round_1_error:
  assumes "0 \<le> p" and "p \<le> 101"
  shows "\<bar>float_round p 1 - p\<bar> \<le> 1 / 20 + 102 / 2 ^ 53"
proof -
  define r :: real where "r = of_int (py_round (p * 10)) / 10"
  have "\<bar>of_int (py_round (p * 10)) - p * 10\<bar> \<le> 1 / 2" by (rule py_round_error)
  then have near: "\<bar>r - p\<bar> \<le> 1 / 20" by (simp add: r_def abs_le_iff field_simps)
  have "of_int 0 \<le> p * 10" using assms by simp
  then have "0 \<le> py_round (p * 10)" by (rule py_round_lower)
  then have r0: "0 \<le> r" by (simp add: r_def)
  have "r \<le> 102" using near assms by linarith
  then have "\<bar>r\<bar> / 2 ^ 53 \<le> 102 / 2 ^ 53"
    using r0 by (intro divide_right_mono) simp_all
  then have "\<bar>fl64 r - r\<bar> \<le> 102 / 2 ^ 53"
    using fl64_error [of r] by linarith
  moreover have "float_round p 1 = fl64 r" by (simp add: float_round_def r_def)
  ultimately show ?thesis using near by linarith
qed

subsection \<open>The deadhead analysis\<close>

text \<open>The guards in front of the divisions keep them from raising.\<close>

lemma rounded_ratio_eq:
  "rounded_ratio a b = Inr (if 0 < b then float_round (fl64 (a / b)) 2 else 0)"
  by (simp add: rounded_ratio_def float_div_def bind_err_def)

lemma rounded_percentage_eq:
  "rounded_percentage a b =
     Inr (if 0 < b then float_round (fl64 (fl64 (a / b) * 100)) 1 else 0)"
  by (simp add: rounded_percentage_def float_div_def bind_err_def)

lemma calculate_deadhead_success:
  assumes "0 < t"
  shows "\<exists>r. calculate_deadhead_analysis od dd t = Inr (DeadheadSuccess r) \<and>
     da_paid_miles_percentage r =
       (if 0 < fl64 (t + fl64 (od + dd))
        then float_round (fl64 (fl64 (t / fl64 (t + fl64 (od + dd))) * 100)) 1 else 0) \<and>
     da_unpaid_miles_percentage r =
       (if 0 < fl64 (t + fl64 (od + dd))
        then float_round (fl64 (fl64 (fl64 (od + dd) / fl64 (t + fl64 (od + dd))) * 100)) 1
        else 0)"
  using assms
  by (simp add: calculate_deadhead_analysis_def rounded_ratio_eq rounded_percentage_eq
      bind_err_def Let_def)

text \<open>Six roundings, each with a relative error of at most \<open>2 ^ -53\<close>.\<close>

lemma rounding_chain:
  fixes a b q1 q2 p1 p2 :: real
  assumes c_up: "(a + b) * (1 - 1 / 2 ^ 53) \<le> 1"
    and c_lo: "1 \<le> (a + b) * (1 + 1 / 2 ^ 53)"
    and q1: "a * (1 - 1 / 2 ^ 53) \<le> q1" "q1 \<le> a * (1 + 1 / 2 ^ 53)"
    and q2: "b * (1 - 1 / 2 ^ 53) \<le> q2" "q2 \<le> b * (1 + 1 / 2 ^ 53)"
    and p1: "q1 * 100 * (1 - 1 / 2 ^ 53) \<le> p1" "p1 \<le> q1 * 100 * (1 + 1 / 2 ^ 53)"
    and p2: "q2 * 100 * (1 - 1 / 2 ^ 53) \<le> p2" "p2 \<le> q2 * 100 * (1 + 1 / 2 ^ 53)"
  shows "\<bar>p1 + p2 - 100\<bar> \<le> 1 / 10 ^ 13"
proof -
  define c where "c = a + b"
  define q where "q = q1 + q2"
  define p where "p = p1 + p2"
  have c1: "c \<le> 1 + 2 / 2 ^ 53" using c_up unfolding c_def by (simp add: field_simps)
  have c2: "1 - 1 / 2 ^ 53 \<le> c" using c_lo unfolding c_def by (simp add: field_simps)
  have "q \<le> c * (1 + 1 / 2 ^ 53)"
    using q1(2) q2(2) unfolding q_def c_def by (simp add: algebra_simps)
  with c1 have q_up: "q \<le> 1 + 4 / 2 ^ 53" by (simp add: field_simps)
  have "c * (1 - 1 / 2 ^ 53) \<le> q"
    using q1(1) q2(1) unfolding q_def c_def by (simp add: algebra_simps)
  with c2 have q_lo: "1 - 2 / 2 ^ 53 \<le> q" by (simp add: field_simps)
  have "p \<le> q * 100 * (1 + 1 / 2 ^ 53)"
    using p1(2) p2(2) unfolding p_def q_def by (simp add: algebra_simps)
  with q_up have p_up: "p \<le> 100 + 600 / 2 ^ 53" by (simp add: field_simps)
  have "q * 100 * (1 - 1 / 2 ^ 53) \<le> p"
    using p1(1) p2(1) unfolding p_def q_def by (simp add: algebra_simps)
  with q_lo have p_lo: "100 - 300 / 2 ^ 53 \<le> p" by (simp add: field_simps)
  have k1: "(600::real) / 2 ^ 53 \<le> 1 / 10 ^ 13" by simp
  have k2: "(300::real) / 2 ^ 53 \<le> 1 / 10 ^ 13" by simp
  from p_up p_lo k1 k2 show ?thesis unfolding p_def by linarith
qed

text \<open>
  The two percentages before the rounding to one decimal: they are not negative and add
  up to 100, up to the error of the roundings.
\<close>

lemma percentages_before_rounding:
  assumes "0 \<le> td" and "0 < t"
  defines "tot \<equiv> fl64 (t + td)"
  defines "p1 \<equiv> fl64 (fl64 (t / tot) * 100)"
  defines "p2 \<equiv> fl64 (fl64 (td / tot) * 100)"
  shows "0 < tot" and "0 \<le> p1" and "0 \<le> p2"
    and "\<bar>p1 + p2 - 100\<bar> \<le> 1 / 10 ^ 13"
proof -
  have S: "0 < t + td" using assms by simp
  have S0: "0 \<le> t + td" using S by simp
  have tl: "(t + td) * (1 - 1 / 2 ^ 53) \<le> tot"
    unfolding tot_def by (rule fl64_bounds(1) [OF S0])
  have tu: "tot \<le> (t + td) * (1 + 1 / 2 ^ 53)"
    unfolding tot_def by (rule fl64_bounds(2) [OF S0])
  have "0 < (t + td) * (1 - 1 / 2 ^ 53)" using S by simp
  with tl show pos: "0 < tot" by linarith
  define a where "a = t / tot"
  define b where "b = td / tot"
  have a0: "0 \<le> a" and b0: "0 \<le> b" using assms pos by (simp_all add: a_def b_def)
  have ab: "a + b = (t + td) / tot" by (simp add: a_def b_def add_divide_distrib)
  have "(a + b) * (1 - 1 / 2 ^ 53) = (t + td) * (1 - 1 / 2 ^ 53) / tot"
    by (simp add: ab)
  also have "\<dots> \<le> tot / tot" using tl pos by (intro divide_right_mono) simp_all
  finally have c_up: "(a + b) * (1 - 1 / 2 ^ 53) \<le> 1" using pos by simp
  have "tot / tot \<le> (t + td) * (1 + 1 / 2 ^ 53) / tot"
    using tu pos by (intro divide_right_mono) simp_all
  also have "\<dots> = (a + b) * (1 + 1 / 2 ^ 53)" by (simp add: ab)
  finally have c_lo: "1 \<le> (a + b) * (1 + 1 / 2 ^ 53)" using pos by simp
  define q1 where "q1 = fl64 a"
  define q2 where "q2 = fl64 b"
  have q1: "a * (1 - 1 / 2 ^ 53) \<le> q1" "q1 \<le> a * (1 + 1 / 2 ^ 53)" "0 \<le> q1"
    unfolding q1_def
    by (rule fl64_bounds(1) [OF a0], rule fl64_bounds(2) [OF a0], rule fl64_nonneg [OF a0])
  have q2: "b * (1 - 1 / 2 ^ 53) \<le> q2" "q2 \<le> b * (1 + 1 / 2 ^ 53)" "0 \<le> q2"
    unfolding q2_def
    by (rule fl64_bounds(1) [OF b0], rule fl64_bounds(2) [OF b0], rule fl64_nonneg [OF b0])
  have h1: "0 \<le> q1 * 100" using q1(3) by simp
  have h2: "0 \<le> q2 * 100" using q2(3) by simp
  have p1_eq: "p1 = fl64 (q1 * 100)" by (simp add: p1_def q1_def a_def)
  have p2_eq: "p2 = fl64 (q2 * 100)" by (simp add: p2_def q2_def b_def)
  have p1: "q1 * 100 * (1 - 1 / 2 ^ 53) \<le> p1" "p1 \<le> q1 * 100 * (1 + 1 / 2 ^ 53)"
    unfolding p1_eq by (rule fl64_bounds(1) [OF h1], rule fl64_bounds(2) [OF h1])
  have p2: "q2 * 100 * (1 - 1 / 2 ^ 53) \<le> p2" "p2 \<le> q2 * 100 * (1 + 1 / 2 ^ 53)"
    unfolding p2_eq by (rule fl64_bounds(1) [OF h2], rule fl64_bounds(2) [OF h2])
  show "0 \<le> p1" unfolding p1_eq by (rule fl64_nonneg [OF h1])
  show "0 \<le> p2" unfolding p2_eq by (rule fl64_nonneg [OF h2])
  show "\<bar>p1 + p2 - 100\<bar> \<le> 1 / 10 ^ 13"
    by (rule rounding_chain [OF c_up c_lo q1(1) q1(2) q2(1) q2(2) p1 p2])
qed

lemma percentages_sum_bound:
  assumes "0 \<le> td" and "0 < t"
  shows "0 < fl64 (t + td)"
    and "\<bar>float_round (fl64 (fl64 (t / fl64 (t + td)) * 100)) 1 +
          float_round (fl64 (fl64 (td / fl64 (t + td)) * 100)) 1 - 100\<bar>
         \<le> 1 / 10 + 1 / 10 ^ 12"
proof -
  define p1 where "p1 = fl64 (fl64 (t / fl64 (t + td)) * 100)"
  define p2 where "p2 = fl64 (fl64 (td / fl64 (t + td)) * 100)"
  note pb = percentages_before_rounding [OF assms]
  show "0 < fl64 (t + td)" by (rule pb(1))
  have p: "0 \<le> p1" "0 \<le> p2" "\<bar>p1 + p2 - 100\<bar> \<le> 1 / 10 ^ 13"
    unfolding p1_def p2_def by (rule pb(2), rule pb(3), rule pb(4))
  have small: "(1::real) / 10 ^ 13 \<le> 1" by simp
  have b1: "p1 \<le> 101" and b2: "p2 \<le> 101" using p small by linarith+
  have e1: "\<bar>float_round p1 1 - p1\<bar> \<le> 1 / 20 + 102 / 2 ^ 53"
    by (rule float_round_1_error [OF p(1) b1])
  have e2: "\<bar>float_round p2 1 - p2\<bar> \<le> 1 / 20 + 102 / 2 ^ 53"
    by (rule float_round_1_error [OF p(2) b2])
  have k: "(102::real) / 2 ^ 53 + 102 / 2 ^ 53 + 1 / 10 ^ 13 \<le> 1 / 10 ^ 12" by simp
  have "\<bar>float_round p1 1 + float_round p2 1 - 100\<bar> \<le> 1 / 10 + 1 / 10 ^ 12"
    using e1 e2 p(3) k by linarith
  then show "\<bar>float_round (fl64 (fl64 (t / fl64 (t + td)) * 100)) 1 +
          float_round (fl64 (fl64 (td / fl64 (t + td)) * 100)) 1 - 100\<bar>
         \<le> 1 / 10 + 1 / 10 ^ 12"
    unfolding p1_def p2_def .
qed

text \<open>
  C7, as the code has it. For non-negative deadhead miles at the origin and at the
  destination and positive trip miles, the analysis succeeds and its paid and unpaid
  percentages add up to 100 within a tenth and the error of the floating point roundings,
  which is below \<open>10 ^ -12\<close>. Each percentage is rounded to one decimal on its own, so
  that two shares ending in 5 can both be rounded up.
\<close>

theorem deadhead_percentages_sum:
  assumes "0 \<le> od" and "0 \<le> dd" and "0 < t"
  shows "\<exists>r. calculate_deadhead_analysis od dd t = Inr (DeadheadSuccess r) \<and>
     \<bar>da_paid_miles_percentage r + da_unpaid_miles_percentage r - 100\<bar>
       \<le> 1 / 10 + 1 / 10 ^ 12"
proof -
  have "0 \<le> od + dd" using assms by simp
  then have td: "0 \<le> fl64 (od + dd)" by (rule fl64_nonneg)
  from percentages_sum_bound [OF td assms(3)] calculate_deadhead_success [OF assms(3), of od dd]
  show ?thesis by auto
qed

text \<open>50 and 25 deadhead miles on a trip of 500 miles.\<close>

theorem deadhead_percentages_sum_witness:
  "(0::real) \<le> 50 \<and> (0::real) \<le> 25 \<and> (0::real) < 500 \<and>
   (\<exists>r. calculate_deadhead_analysis 50 25 500 = Inr (DeadheadSuccess r) \<and>
      \<bar>da_paid_miles_percentage r + da_unpaid_miles_percentage r - 100\<bar>
        \<le> 1 / 10 + 1 / 10 ^ 12)"
  using deadhead_percentages_sum [of 50 25 500] by simp

text \<open>
  C7 as stated fails at 1487 deadhead miles at the origin, none at the destination and
  513 trip miles. The shares are 25.65 and 74.35 percent; the floats computed for them lie
  just above (25.650000000000002 and 74.35000000000001), so both are rounded up, to the
  floats nearest 25.7 and 74.4, whose sum exceeds 100 by more than a tenth.
\<close>

theorem deadhead_percentages_sum_counterexample:
  "calculate_deadhead_analysis 1487 0 513 =
     Inr (DeadheadSuccess
       \<lparr>da_origin_deadhead_miles = 1487, da_destination_deadhead_miles = 0,
        da_total_deadhead_miles = 1487,
        da_origin_deadhead_ratio = 6530219459687219 / 2251799813685248,
        da_destination_deadhead_ratio = 0,
        da_total_deadhead_ratio = 6530219459687219 / 2251799813685248,
        da_paid_miles_percentage = 7233906901463859 / 281474976710656,
        da_unpaid_miles_percentage = 2617717283409101 / 35184372088832,
        da_severity = ''Very Poor'', da_impact = ''Severe'',
        da_summary =
          [Txt ''Deadhead is very poor at '', Num 290,
           Txt ''% of loaded miles. Pickup deadhead is your main concern.'']\<rparr>) \<and>
   (1::real) / 10 <
     \<bar>7233906901463859 / 281474976710656 + 2617717283409101 / 35184372088832 - 100\<bar>"
  apply (simp add: calculate_deadhead_analysis_def rounded_ratio_eq rounded_percentage_eq
      bind_err_def deadhead_focus_def Let_def)
  apply (simp add: fl64_def expo_def compute_bitlen py_round_def float_round_def Let_def
      deadhead_severity_def py_lower_def lower_char_def)
  done

text \<open>
  C8. With trip miles at or below zero the result is the invalid one, which carries a
  message and nothing else; with positive trip miles it is a successful analysis. Neither
  case raises: the result is never a ZeroDivisionError.
\<close>

theorem deadhead_status:
  "(t \<le> 0 \<longrightarrow>
      calculate_deadhead_analysis od dd t =
        Inr (DeadheadInvalid ''Trip miles must be greater than zero'')) \<and>
   (0 < t \<longrightarrow> (\<exists>r. calculate_deadhead_analysis od dd t = Inr (DeadheadSuccess r)))"
proof (intro conjI impI)
  assume "t \<le> 0"
  then show "calculate_deadhead_analysis od dd t =
      Inr (DeadheadInvalid ''Trip miles must be greater than zero'')"
    by (simp add: calculate_deadhead_analysis_def)
next
  assume "0 < t"
  from calculate_deadhead_success [OF this, of od dd]
  show "\<exists>r. calculate_deadhead_analysis od dd t = Inr (DeadheadSuccess r)" by blast
qed

text \<open>Trip miles 0 and trip miles 500.\<close>

theorem deadhead_status_witness:
  "calculate_deadhead_analysis 50 25 0 =
     Inr (DeadheadInvalid ''Trip miles must be greater than zero'') \<and>
   (\<exists>r. calculate_deadhead_analysis 50 25 500 = Inr (DeadheadSuccess r))"
  using deadhead_status [of 0 50 25] deadhead_status [of 500 50 25] by simp

subsection \<open>The rate comparison\<close>



end
